theory Spec2Isabelle
  imports Complex_Main "HOL-Library.Multiset"
begin

section \<open>Python primitives used by the sources\<close>

text \<open>
  Exceptions that the modelled code can raise or pass on. \<open>ExternalError\<close> stands for any
  exception raised inside a collaborator (the vector store, the embedding service, the
  model service); the first five are raised by Python itself or by argument validation.
\<close>

datatype error =
    AttributeError
  | TypeError
  | KeyError
  | IndexError
  | ValueError
  | ExternalError string

text \<open>
  One bound of a slice \<open>xs[i:j]\<close> on a sequence of length \<open>n\<close>: a negative bound counts
  from the end, and every bound is clamped into \<open>0..n\<close>.
\<close>

definition slice_bound :: "nat \<Rightarrow> int \<Rightarrow> nat" where
  "slice_bound n i = (if i < 0 then nat (int n + i) else min n (nat i))"

definition py_slice :: "'a list \<Rightarrow> int \<Rightarrow> int \<Rightarrow> 'a list" where
  "py_slice xs i j =
     take (slice_bound (length xs) j - slice_bound (length xs) i)
          (drop (slice_bound (length xs) i) xs)"

text \<open>\<open>s.endswith(suffix)\<close>.\<close>

definition endswith :: "string \<Rightarrow> string \<Rightarrow> bool" where
  "endswith s suffix =
     (length suffix \<le> length s \<and> drop (length s - length suffix) s = suffix)"

text \<open>\<open>str(n)\<close> for a non-negative integer: decimal digits, no leading zero.\<close>

definition digit_char :: "nat \<Rightarrow> char" where
  "digit_char d = char_of (48 + d)"

fun str_nat :: "nat \<Rightarrow> string" where
  "str_nat n = (if n < 10 then [digit_char n] else str_nat (n div 10) @ [digit_char (n mod 10)])"

declare str_nat.simps [simp del]

definition str_int :: "int \<Rightarrow> string" where
  "str_int i = (if i < 0 then CHR ''-'' # str_nat (nat (- i)) else str_nat (nat i))"

text \<open>\<open>sep.join(parts)\<close>.\<close>

fun join :: "string \<Rightarrow> string list \<Rightarrow> string" where
  "join sep [] = []"
| "join sep [p] = p"
| "join sep (p # q # ps) = p @ sep @ join sep (q # ps)"

section \<open>The chunker: \<open>_split_text\<close>\<close>

text \<open>
  \<open>_split_text\<close> is the same, line for line, in \<open>cag_system.py\<close> and
  \<open>cag_system_fast.py\<close>. Its \<open>while\<close> loop has no bound of its own, so the loop is a
  partial function: \<open>None\<close> means that the loop never exits. Chunk size and overlap are
  Python integers and may be zero or negative; the slice then follows Python's rules.
\<close>

partial_function (option) split_loop ::
  "'a list \<Rightarrow> int \<Rightarrow> int \<Rightarrow> int \<Rightarrow> 'a list list \<Rightarrow> 'a list list option" where
  "split_loop text chunk_size overlap start chunks =
     (if start < int (length text)
      then split_loop text chunk_size overlap (start + chunk_size - overlap)
             (chunks @ [py_slice text start (start + chunk_size)])
      else Some chunks)"

declare split_loop.simps [code]

definition split_text :: "'a list \<Rightarrow> int \<Rightarrow> int \<Rightarrow> 'a list list option" where
  "split_text text chunk_size overlap = split_loop text chunk_size overlap 0 []"

text \<open>
  The reading of "concatenating the chunks with the overlap removed": the first chunk,
  followed by every later chunk without its first \<open>overlap\<close> characters.
\<close>

fun reconstruct :: "int \<Rightarrow> 'a list list \<Rightarrow> 'a list" where
  "reconstruct overlap [] = []"
| "reconstruct overlap (c # cs) = c @ concat (map (drop (nat overlap)) cs)"

text \<open>"Every chunk except the last has length \<open>chunk_size\<close>".\<close>

definition all_but_last_full :: "int \<Rightarrow> 'a list list \<Rightarrow> bool" where
  "all_but_last_full chunk_size chunks =
     list_all (\<lambda>c. int (length c) = chunk_size) (butlast chunks)"

text \<open>
  The window of the \<open>k\<close>-th chunk, and the number of windows, for a step of \<open>s\<close>
  characters between consecutive chunk starts.
\<close>

definition window :: "'a list \<Rightarrow> nat \<Rightarrow> nat \<Rightarrow> nat \<Rightarrow> 'a list" where
  "window tx c s k = take c (drop (k * s) tx)"

definition num_chunks :: "nat \<Rightarrow> nat \<Rightarrow> nat" where
  "num_chunks n s = (n + s - 1) div s"

section \<open>The index store\<close>

text \<open>
  Metadata values stored by this program are strings and integers; a metadata dictionary
  is an association list.
\<close>

datatype mvalue = MStr string | MInt int

type_synonym metadata = "(string \<times> mvalue) list"

record entry =
  document :: string
  metadata :: "metadata option"
  entry_id :: string

text \<open>
  The persistent collection is a collaborator (chromadb). Its model here is the list of
  stored entries: \<open>count\<close> is its length, \<open>add\<close> appends one entry per position of the
  three parallel lists, and \<open>query\<close> embeds the query text and returns the
  \<open>n_results\<close> entries nearest to it. The embedding service and the distance are the
  parameter \<open>svc\<close>: for a query text it either fails or gives the distance of every
  stored entry.
\<close>

type_synonym collection = "entry list"

definition collection_count :: "collection \<Rightarrow> nat" where
  "collection_count coll = length coll"

definition collection_add ::
  "collection \<Rightarrow> string list \<Rightarrow> metadata list \<Rightarrow> string list \<Rightarrow> collection" where
  "collection_add coll documents metadatas ids =
     coll @ map (\<lambda>(d, m, i). \<lparr>document = d, metadata = Some m, entry_id = i\<rparr>)
              (zip documents (zip metadatas ids))"

record query_result =
  res_documents :: "string list list option"
  res_metadatas :: "metadata option list list option"

definition collection_query ::
  "(string \<Rightarrow> error + (entry \<Rightarrow> 'd::linorder)) \<Rightarrow> collection \<Rightarrow> string \<Rightarrow> int \<Rightarrow>
     error + query_result" where
  "collection_query svc coll query_text n_results =
     (if n_results \<le> 0 then Inl ValueError
      else case svc query_text of
             Inl e \<Rightarrow> Inl e
           | Inr distance \<Rightarrow>
               Inr \<lparr>res_documents =
                      Some [map document (take (nat n_results) (sort_key distance coll))],
                    res_metadatas =
                      Some [map metadata (take (nat n_results) (sort_key distance coll))]\<rparr>)"

section \<open>Ingestion: \<open>setup_vectorstore\<close>\<close>

text \<open>
  \<open>setup_vectorstore\<close> is the same in both source files. The data folder is its
  directory listing, in listing order, each name with the content of the file. The
  rendering of markdown to plain text (\<open>markdown.markdown\<close>, then
  \<open>BeautifulSoup.get_text\<close>) is the parameter \<open>render\<close>. The three lists
  \<open>documents\<close>, \<open>metadatas\<close> and \<open>ids\<close> grow in step, as in the source.
\<close>

type_synonym folder = "(string \<times> string) list"

record batch =
  documents :: "string list"
  metadatas :: "metadata list"
  ids :: "string list"

definition empty_batch :: batch where
  "empty_batch = \<lparr>documents = [], metadatas = [], ids = []\<rparr>"

definition chunk_metadata :: "string \<Rightarrow> nat \<Rightarrow> metadata" where
  "chunk_metadata filename j = [(''source'', MStr filename), (''chunk_index'', MInt (int j))]"

definition chunk_id :: "string \<Rightarrow> nat \<Rightarrow> string" where
  "chunk_id filename j = filename @ ''_'' @ str_nat j"

text \<open>The inner loop, \<open>for j, chunk in enumerate(chunks)\<close>.\<close>

fun add_chunks :: "string \<Rightarrow> nat \<Rightarrow> string list \<Rightarrow> batch \<Rightarrow> batch" where
  "add_chunks filename j [] b = b"
| "add_chunks filename j (chunk # rest) b =
     add_chunks filename (Suc j) rest
       \<lparr>documents = documents b @ [chunk],
        metadatas = metadatas b @ [chunk_metadata filename j],
        ids = ids b @ [chunk_id filename j]\<rparr>"

text \<open>The outer loop, \<open>for i, filename in enumerate(os.listdir(self.data_folder))\<close>.\<close>

fun load_files :: "(string \<Rightarrow> string) \<Rightarrow> nat \<Rightarrow> folder \<Rightarrow> batch \<Rightarrow> batch option" where
  "load_files render i [] b = Some b"
| "load_files render i ((filename, content) # rest) b =
     (if endswith filename ''.md''
      then (case split_text (render content) 1000 200 of
              None \<Rightarrow> None
            | Some chunks \<Rightarrow> load_files render (Suc i) rest (add_chunks filename 0 chunks b))
      else load_files render (Suc i) rest b)"

definition setup_vectorstore ::
  "(string \<Rightarrow> string) \<Rightarrow> folder \<Rightarrow> collection \<Rightarrow> collection option" where
  "setup_vectorstore render data_folder coll =
     (if collection_count coll > 0 then Some coll
      else case load_files render 0 data_folder empty_batch of
             None \<Rightarrow> None
           | Some b \<Rightarrow>
               if documents b \<noteq> []
               then Some (collection_add coll (documents b) (metadatas b) (ids b))
               else Some coll)"

text \<open>The triples of a batch, and those that one file contributes.\<close>

definition triples :: "batch \<Rightarrow> (string \<times> metadata \<times> string) list" where
  "triples b = zip (documents b) (zip (metadatas b) (ids b))"

definition file_triples :: "string \<Rightarrow> nat \<Rightarrow> string list \<Rightarrow> (string \<times> metadata \<times> string) list" where
  "file_triples filename j chunks =
     map (\<lambda>(k, chunk). (chunk, chunk_metadata filename k, chunk_id filename k))
         (zip [j..<j + length chunks] chunks)"

definition chunks_of :: "string \<Rightarrow> string list" where
  "chunks_of tx = map (window tx 1000 800) [0..<num_chunks (length tx) 800]"

definition folder_triples :: "(string \<Rightarrow> string) \<Rightarrow> folder \<Rightarrow> (string \<times> metadata \<times> string) list" where
  "folder_triples render data_folder =
     concat (map (\<lambda>(filename, content). file_triples filename 0 (chunks_of (render content)))
                 (filter (\<lambda>(filename, content). endswith filename ''.md'') data_folder))"

definition entry_of :: "string \<times> metadata \<times> string \<Rightarrow> entry" where
  "entry_of t = (case t of (d, m, i) \<Rightarrow> \<lparr>document = d, metadata = Some m, entry_id = i\<rparr>)"

section \<open>Retrieval: \<open>retrieve_context\<close>\<close>

text \<open>
  \<open>retrieve_context\<close> is the same in both source files. \<open>self.collection\<close> is
  \<open>None\<close> or an object with a \<open>query\<close> method; the method is a function from the
  query text and \<open>n_results\<close> to a result or an exception. Of the result dictionary the
  code reads the keys \<open>documents\<close> and \<open>metadatas\<close> only.
\<close>

type_synonym query_method = "string \<Rightarrow> int \<Rightarrow> error + query_result"

record retrieved =
  content :: string
  source :: mvalue

text \<open>
  \<open>results['metadatas'][0][i]['source'] if results['metadatas'] else 'Unknown'\<close>:
  the guard is the truth value of the whole \<open>metadatas\<close> field; behind it an index out
  of range, a \<open>None\<close> metadata and a missing key raise.
\<close>

fun context_source :: "metadata option list list option \<Rightarrow> nat \<Rightarrow> error + mvalue" where
  "context_source (Some (m0 # ms)) i =
     (if i < length m0
      then (case m0 ! i of
              None \<Rightarrow> Inl TypeError
            | Some md \<Rightarrow> (case map_of md ''source'' of None \<Rightarrow> Inl KeyError | Some v \<Rightarrow> Inr v))
      else Inl IndexError)"
| "context_source (Some []) i = Inr (MStr ''Unknown'')"
| "context_source None i = Inr (MStr ''Unknown'')"

text \<open>\<open>for i, doc in enumerate(results['documents'][0])\<close>.\<close>

fun context_loop ::
  "metadata option list list option \<Rightarrow> nat \<Rightarrow> string list \<Rightarrow> retrieved list \<Rightarrow>
     error + retrieved list" where
  "context_loop metas i [] contexts = Inr contexts"
| "context_loop metas i (doc # docs) contexts =
     (case context_source metas i of
        Inl e \<Rightarrow> Inl e
      | Inr src \<Rightarrow>
          context_loop metas (Suc i) docs (contexts @ [\<lparr>content = doc, source = src\<rparr>]))"

definition build_contexts :: "query_result \<Rightarrow> error + retrieved list" where
  "build_contexts results =
     (case res_documents results of
        None \<Rightarrow> Inr []
      | Some [] \<Rightarrow> Inr []
      | Some (d0 # ds) \<Rightarrow>
          if d0 = [] then Inr [] else context_loop (res_metadatas results) 0 d0 [])"

definition retrieve_context ::
  "query_method option \<Rightarrow> string \<Rightarrow> int \<Rightarrow> error + retrieved list" where
  "retrieve_context collection query k =
     (case collection of
        None \<Rightarrow> Inl AttributeError
      | Some query_fn \<Rightarrow>
          (case query_fn query k of Inl e \<Rightarrow> Inl e | Inr results \<Rightarrow> build_contexts results))"

text \<open>The documents a result offers to the loop, and whether a stored entry names its source.\<close>

definition first_documents :: "query_result \<Rightarrow> string list" where
  "first_documents results =
     (case res_documents results of None \<Rightarrow> [] | Some [] \<Rightarrow> [] | Some (d0 # ds) \<Rightarrow> d0)"

definition has_source :: "entry \<Rightarrow> bool" where
  "has_source e = (case metadata e of None \<Rightarrow> False | Some md \<Rightarrow> map_of md ''source'' \<noteq> None)"

definition entry_source :: "entry \<Rightarrow> mvalue" where
  "entry_source e =
     (case metadata e of
        None \<Rightarrow> MStr ''Unknown''
      | Some md \<Rightarrow> (case map_of md ''source'' of None \<Rightarrow> MStr ''Unknown'' | Some v \<Rightarrow> v))"

section \<open>Answering a query\<close>

text \<open>The dictionary that both \<open>process_query\<close> methods return.\<close>

record result =
  result_query :: string
  result_initial_context :: "retrieved list"
  augmented_response :: string

definition str_mvalue :: "mvalue \<Rightarrow> string" where
  "str_mvalue v = (case v of MStr s \<Rightarrow> s | MInt i \<Rightarrow> str_int i)"

text \<open>\<open>f"From {ctx['source']}:\n{ctx['content']}"\<close>, joined by a blank line.\<close>

definition format_context :: "retrieved \<Rightarrow> string" where
  "format_context ctx = ''From '' @ str_mvalue (source ctx) @ '':\<newline>'' @ content ctx"

definition context_str :: "retrieved list \<Rightarrow> string" where
  "context_str initial_context = join ''\<newline>\<newline>'' (map format_context initial_context)"

subsection \<open>The fast path: \<open>CAGSystemFast.process_query\<close>\<close>

text \<open>
  The model service is the parameter \<open>chat\<close>: it receives the request of
  \<open>client.chat.completions.create\<close> and returns the text of the first choice, or fails.
\<close>

record chat_request =
  model :: string
  messages :: "(string \<times> string) list"
  temperature :: rat
  max_tokens :: nat

definition fast_prompt :: "string \<Rightarrow> string \<Rightarrow> string" where
  "fast_prompt cstr query =
     ''You are an AI assistant for Bella Terra restaurant. Using the following context from the restaurant's menus, answer the customer's question.\<newline>'' @
     ''\<newline>'' @
     ''Context:\<newline>'' @
     cstr @
     ''\<newline>'' @
     ''\<newline>'' @
     ''Customer Question: '' @
     query @
     ''\<newline>'' @
     ''\<newline>'' @
     ''Provide a helpful, accurate response based on the menu information. If prices are mentioned, include them. Be friendly and informative.''"

definition fast_request :: "string \<Rightarrow> chat_request" where
  "fast_request prompt =
     \<lparr>model = ''gpt-4o-mini'',
      messages = [(''system'', ''You are a helpful restaurant assistant.''), (''user'', prompt)],
      temperature = 7 / 10,
      max_tokens = 500\<rparr>"

definition process_query_fast ::
  "query_method option \<Rightarrow> (chat_request \<Rightarrow> error + string) \<Rightarrow> string \<Rightarrow> error + result" where
  "process_query_fast collection chat query =
     (case retrieve_context collection query 5 of
        Inl e \<Rightarrow> Inl e
      | Inr initial_context \<Rightarrow>
          (case chat (fast_request (fast_prompt (context_str initial_context) query)) of
             Inl e \<Rightarrow> Inl e
           | Inr answer \<Rightarrow>
               Inr \<lparr>result_query = query, result_initial_context = initial_context,
                    augmented_response = answer\<rparr>))"

subsection \<open>The augmentation path: \<open>CAGSystem.process_query\<close>\<close>

datatype tool = FileReadTool | DirectoryReadTool string

record agent =
  role :: string
  goal :: string
  backstory :: string
  verbose :: bool
  allow_delegation :: bool
  tools :: "tool list"

record agents =
  context_analyst :: agent
  context_augmenter :: agent
  response_generator :: agent

definition create_agents :: "string \<Rightarrow> agents" where
  "create_agents data_folder =
     \<lparr>context_analyst =
        \<lparr>role = ''Context Analyst'',
         goal = ''Analyze and extract relevant context from the Bella Terra menu knowledge base'',
         backstory =
           ''You are an expert at understanding and analyzing restaurant \<newline>'' @
           ''            information, menus, and business data. You excel at finding relevant \<newline>'' @
           ''            information and understanding relationships between different pieces of data.\<newline>'' @
           ''            You work with the Bella Terra restaurant's menu data.'',
         verbose = True,
         allow_delegation = False,
         tools = [FileReadTool, DirectoryReadTool data_folder]\<rparr>,
      context_augmenter =
        \<lparr>role = ''Context Augmenter'',
         goal = ''Enhance and expand context with additional insights about menu items and relationships'',
         backstory =
           ''You specialize in enriching context by identifying patterns, \<newline>'' @
           ''            relationships, and implicit information in restaurant menus. You can infer \<newline>'' @
           ''            additional context from existing data and make intelligent connections between\<newline>'' @
           ''            dishes, ingredients, prices, and categories.'',
         verbose = True,
         allow_delegation = False,
         tools = []\<rparr>,
      response_generator =
        \<lparr>role = ''Response Generator'',
         goal = ''Generate comprehensive responses about Bella Terra using augmented context'',
         backstory =
           ''You are a master at crafting detailed, accurate, and helpful \<newline>'' @
           ''            responses about restaurant menus and offerings. You use all available context \<newline>'' @
           ''            to provide the most relevant and complete answers possible about Bella Terra.'',
         verbose = True,
         allow_delegation = False,
         tools = []\<rparr>\<rparr>"

text \<open>
  A task names the tasks whose outputs it receives in its \<open>context\<close> argument; the
  Python objects are shared, the model holds them by value.
\<close>

datatype task =
  Task (description: string) (expected_output: string) (task_agent: agent)
       (task_context: "task list")

datatype process = Sequential | Hierarchical

record crew =
  crew_agents :: "agent list"
  crew_tasks :: "task list"
  crew_process :: process
  crew_verbose :: bool

definition analysis_description :: "string \<Rightarrow> string \<Rightarrow> string" where
  "analysis_description query cstr =
     ''Analyze the following context pieces from Bella Terra's menus for the query: '' @ [CHR 0x27] @
     query @
     '''\<newline>'' @
     ''            \<newline>'' @
     ''            Context pieces:\<newline>'' @
     ''            '' @
     cstr @
     ''\<newline>'' @
     ''            \<newline>'' @
     ''            Identify key information, relationships between menu items, price patterns, \<newline>'' @
     ''            and any gaps in the context. Focus on understanding the restaurant's offerings.''"

definition augmentation_description :: string where
  "augmentation_description =
     ''Based on the context analysis, augment the information by:\<newline>'' @
     ''            1. Identifying implicit relationships between menu items, prices, and categories\<newline>'' @
     ''            2. Inferring additional relevant details about ingredients or preparation methods\<newline>'' @
     ''            3. Suggesting related menu items or pairings that might be helpful\<newline>'' @
     ''            4. Highlighting any special patterns, pricing tiers, or menu groupings\<newline>'' @
     ''            5. Making connections between different menu sections (pizza, pasta, wine, etc.)''"

definition generation_description :: "string \<Rightarrow> string" where
  "generation_description query =
     ''Using all the analyzed and augmented context about Bella Terra, \<newline>'' @
     ''            generate a comprehensive response to the query: '' @ [CHR 0x27] @
     query @
     '''\<newline>'' @
     ''            \<newline>'' @
     ''            Ensure the response is:\<newline>'' @
     ''            - Accurate to the source menu data\<newline>'' @
     ''            - Enhanced with the augmented insights about relationships and patterns\<newline>'' @
     ''            - Well-structured and easy to understand\<newline>'' @
     ''            - Complete with all relevant details including prices where applicable\<newline>'' @
     ''            - Helpful for someone trying to understand Bella Terra's offerings''"

definition context_analysis_task :: "agents \<Rightarrow> string \<Rightarrow> retrieved list \<Rightarrow> task" where
  "context_analysis_task ags query initial_context =
     Task (analysis_description query (context_str initial_context))
          ''A detailed analysis of the menu context with key insights about dishes, prices, and categories''
          (context_analyst ags)
          []"

definition augmentation_task :: "agents \<Rightarrow> string \<Rightarrow> retrieved list \<Rightarrow> task" where
  "augmentation_task ags query initial_context =
     Task augmentation_description
          ''Enhanced context with additional insights about Bella Terra's offerings''
          (context_augmenter ags)
          [context_analysis_task ags query initial_context]"

definition generation_task :: "agents \<Rightarrow> string \<Rightarrow> retrieved list \<Rightarrow> task" where
  "generation_task ags query initial_context =
     Task (generation_description query)
          ''A comprehensive, friendly response about Bella Terra's menu offerings''
          (response_generator ags)
          [context_analysis_task ags query initial_context,
           augmentation_task ags query initial_context]"

definition build_crew :: "agents \<Rightarrow> string \<Rightarrow> retrieved list \<Rightarrow> crew" where
  "build_crew ags query initial_context =
     \<lparr>crew_agents = [context_analyst ags, context_augmenter ags, response_generator ags],
      crew_tasks = [context_analysis_task ags query initial_context,
                    augmentation_task ags query initial_context,
                    generation_task ags query initial_context],
      crew_process = Sequential,
      crew_verbose = True\<rparr>"

text \<open>\<open>crew.kickoff()\<close> is the parameter \<open>kickoff\<close>; its result is turned into a string.\<close>

definition augment_context ::
  "(crew \<Rightarrow> error + string) \<Rightarrow> agents \<Rightarrow> string \<Rightarrow> retrieved list \<Rightarrow> error + string" where
  "augment_context kickoff ags query initial_context =
     kickoff (build_crew ags query initial_context)"

definition process_query ::
  "query_method option \<Rightarrow> (crew \<Rightarrow> error + string) \<Rightarrow> string \<Rightarrow> string \<Rightarrow> error + result" where
  "process_query collection kickoff data_folder query =
     (case retrieve_context collection query 5 of
        Inl e \<Rightarrow> Inl e
      | Inr initial_context \<Rightarrow>
          (case augment_context kickoff (create_agents data_folder) query initial_context of
             Inl e \<Rightarrow> Inl e
           | Inr augmented \<Rightarrow>
               Inr \<lparr>result_query = query, result_initial_context = initial_context,
                    augmented_response = augmented\<rparr>))"

subsection \<open>Sequential execution of a crew\<close>

text \<open>
  The crew executor is a collaborator (crewai). Its sequential process runs the tasks in
  list order, one at a time; a task's agent receives the task's description and expected
  output together with the outputs of the tasks in its \<open>context\<close> that have already run;
  a failing task ends the run; the result is the output of the last task. The agent's
  model call is the parameter \<open>llm\<close>.
\<close>

record stage_input =
  stage_agent :: agent
  stage_description :: string
  stage_expected_output :: string
  stage_context :: "string list"

definition stage_input_of :: "(task \<times> string) list \<Rightarrow> task \<Rightarrow> stage_input" where
  "stage_input_of finished t =
     \<lparr>stage_agent = task_agent t,
      stage_description = description t,
      stage_expected_output = expected_output t,
      stage_context = List.map_filter (map_of finished) (task_context t)\<rparr>"

fun run_tasks ::
  "(stage_input \<Rightarrow> error + string) \<Rightarrow> (task \<times> string) list \<Rightarrow> task list \<Rightarrow>
     error + (task \<times> string) list" where
  "run_tasks llm finished [] = Inr finished"
| "run_tasks llm finished (t # ts) =
     (case llm (stage_input_of finished t) of
        Inl e \<Rightarrow> Inl e
      | Inr out \<Rightarrow> run_tasks llm (finished @ [(t, out)]) ts)"

definition sequential_kickoff :: "(stage_input \<Rightarrow> error + string) \<Rightarrow> crew \<Rightarrow> error + string" where
  "sequential_kickoff llm c =
     (case run_tasks llm [] (crew_tasks c) of
        Inl e \<Rightarrow> Inl e
      | Inr finished \<Rightarrow> Inr (if finished = [] then [] else snd (last finished)))"

section \<open>The callers' guard on the query\<close>

text \<open>
  \<open>api.py\<close> declares the request field as
  \<open>Field(..., min_length=1, max_length=500)\<close>; a request that violates it is answered
  with status 422 before the endpoint body runs. The endpoint then answers 503 without a
  system, 500 without a model credential, 500 when \<open>process_query\<close> raises, and otherwise
  returns the response text. \<open>cag_cli.py\<close> strips the input line and skips it when
  nothing is left.
\<close>

definition QueryRequest_valid :: "string \<Rightarrow> bool" where
  "QueryRequest_valid q = (1 \<le> length q \<and> length q \<le> 500)"

datatype http = HTTP_OK string | HTTPException nat

definition api_process_query ::
  "(string \<Rightarrow> error + result) option \<Rightarrow> bool \<Rightarrow> string \<Rightarrow> http" where
  "api_process_query cag_system has_api_key q =
     (if \<not> QueryRequest_valid q then HTTPException 422
      else case cag_system of
             None \<Rightarrow> HTTPException 503
           | Some pq \<Rightarrow>
               if \<not> has_api_key then HTTPException 500
               else (case pq q of
                       Inl e \<Rightarrow> HTTPException 500
                     | Inr r \<Rightarrow> HTTP_OK (augmented_response r)))"

section \<open>Properties of the chunker\<close>

subsection \<open>No validation of the overlap\<close>

text \<open>
  When the overlap is at least the chunk size, the start offset never grows: it stays at
  or below zero, so on a non-empty text the loop condition holds forever.
\<close>

lemma split_loop_diverges:
  assumes "split_loop tx cs ov start acc = Some r"
  shows "\<not> (cs \<le> ov \<and> start \<le> 0 \<and> tx \<noteq> [])"
proof (rule split_loop.raw_induct
    [where P = "\<lambda>tx cs ov start acc r. \<not> (cs \<le> ov \<and> start \<le> 0 \<and> tx \<noteq> [])", OF _ assms])
  fix f :: "'a list \<Rightarrow> int \<Rightarrow> int \<Rightarrow> int \<Rightarrow> 'a list list \<Rightarrow> 'a list list option"
  fix tx cs ov start acc r
  assume IH: "\<And>tx cs ov start acc r. f tx cs ov start acc = Some r \<Longrightarrow>
                \<not> (cs \<le> ov \<and> start \<le> 0 \<and> tx \<noteq> [])"
  assume body: "(if start < int (length tx)
      then f tx cs ov (start + cs - ov) (acc @ [py_slice tx start (start + cs)])
      else Some acc) = Some r"
  show "\<not> (cs \<le> ov \<and> start \<le> 0 \<and> tx \<noteq> [])"
  proof
    assume a: "cs \<le> ov \<and> start \<le> 0 \<and> tx \<noteq> []"
    then have "start < int (length tx)" by (cases tx) auto
    with body have "f tx cs ov (start + cs - ov) (acc @ [py_slice tx start (start + cs)]) = Some r"
      by simp
    from IH[OF this] a show False by auto
  qed
qed

lemma split_text_diverges: "cs \<le> ov \<Longrightarrow> tx \<noteq> [] \<Longrightarrow> split_text tx cs ov = None"
proof (rule ccontr)
  assume a: "cs \<le> ov" "tx \<noteq> []" and "split_text tx cs ov \<noteq> None"
  then obtain r where "split_loop tx cs ov 0 [] = Some r" by (auto simp: split_text_def)
  from split_loop_diverges[OF this] a show False by simp
qed

lemma split_text_empty: "split_text [] cs ov = Some []"
  by (simp add: split_text_def split_loop.simps)

text \<open>
  Claim C1 as stated says that a call with \<open>overlap \<ge> chunk_size\<close> is rejected before
  the loop and never loops silently. The source has no such check: with
  \<open>chunk_size = 500\<close> and \<open>overlap = 1000\<close> on the one-character text \<open>a\<close> the loop
  never exits, so the call neither raises nor returns.
\<close>

theorem split_text_500_1000_counterexample:
  "split_text ''a'' 500 1000 = None"
  by (rule split_text_diverges) simp_all

text \<open>
  Claim C1, amended: \<open>_split_text\<close> does not validate its arguments. With
  \<open>overlap \<ge> chunk_size\<close> it returns the empty list for the empty text, without an
  error, and does not return for any non-empty text.
\<close>

theorem split_text_no_validation:
  "chunk_size \<le> overlap \<Longrightarrow>
     split_text tx chunk_size overlap = (if tx = [] then Some [] else None)"
  by (simp add: split_text_diverges split_text_empty)

text \<open>Claim C1, amended, at \<open>chunk_size = 500\<close>, \<open>overlap = 1000\<close>.\<close>

theorem split_text_no_validation_witness:
  "(500::int) \<le> 1000 \<and> split_text ''menu'' 500 1000 = None \<and> split_text '''' 500 1000 = Some []"
  using split_text_no_validation [of 500 1000 "''menu''"]
        split_text_no_validation [of 500 1000 "''''"] by simp

subsection \<open>The chunks of a well-formed call\<close>

text \<open>
  With \<open>0 \<le> overlap < chunk_size\<close> the start offsets are the multiples of
  \<open>chunk_size - overlap\<close> below the length of the text, and every chunk is the window
  of \<open>chunk_size\<close> characters at its offset, cut off at the end of the text.
\<close>

lemma py_slice_nat:
  "py_slice xs (int i) (int i + int c) = take c (drop i xs)"
  by (cases "i \<le> length xs") (auto simp: py_slice_def slice_bound_def min_def nat_add_distrib)

lemma lt_num_chunks: "0 < s \<Longrightarrow> j < num_chunks n s \<longleftrightarrow> j * s < n"
proof -
  assume s: "0 < s"
  have "j < num_chunks n s \<longleftrightarrow> Suc j \<le> (n + s - 1) div s"
    by (simp add: num_chunks_def Suc_le_eq)
  also have "\<dots> \<longleftrightarrow> Suc j * s \<le> n + s - 1"
    using s by (simp add: less_eq_div_iff_mult_less_eq)
  also have "\<dots> \<longleftrightarrow> j * s < n" using s by auto
  finally show ?thesis .
qed

lemma split_loop_closed:
  assumes "0 < s" "cs = int c" "cs - ov = int s"
  shows "j \<le> num_chunks (length tx) s \<Longrightarrow>
         split_loop tx cs ov (int (j * s)) acc =
           Some (acc @ map (window tx c s) [j..<num_chunks (length tx) s])"
proof (induction "num_chunks (length tx) s - j" arbitrary: j acc)
  case 0
  then have j: "j = num_chunks (length tx) s" by simp
  then have "\<not> j * s < length tx" using lt_num_chunks[OF assms(1), of j "length tx"] by simp
  then show ?case using j by (subst split_loop.simps) (simp del: of_nat_mult)
next
  case (Suc d)
  then have lt: "j < num_chunks (length tx) s" by simp
  then have in_range: "j * s < length tx" using lt_num_chunks[OF assms(1)] by simp
  have next_start: "int (j * s) + cs - ov = int (Suc j * s)"
    using assms(3) by (simp add: algebra_simps)
  have chunk: "py_slice tx (int (j * s)) (int (j * s) + cs) = window tx c s j"
    unfolding assms(2) window_def by (rule py_slice_nat)
  have "split_loop tx cs ov (int (j * s)) acc =
        split_loop tx cs ov (int (Suc j * s)) (acc @ [window tx c s j])"
    using in_range next_start chunk by (subst split_loop.simps) (simp del: of_nat_mult mult_Suc)
  also have "\<dots> = Some ((acc @ [window tx c s j]) @ map (window tx c s) [Suc j..<num_chunks (length tx) s])"
    using Suc lt by (intro Suc.hyps(1)) auto
  also have "\<dots> = Some (acc @ map (window tx c s) [j..<num_chunks (length tx) s])"
    using lt by (simp add: upt_conv_Cons)
  finally show ?case .
qed

lemma split_text_closed:
  assumes "0 < chunk_size" "0 \<le> overlap" "overlap < chunk_size"
  shows "split_text tx chunk_size overlap =
           Some (map (window tx (nat chunk_size) (nat (chunk_size - overlap)))
                     [0..<num_chunks (length tx) (nat (chunk_size - overlap))])"
proof -
  have "split_loop tx chunk_size overlap (int (0 * nat (chunk_size - overlap))) [] =
          Some ([] @ map (window tx (nat chunk_size) (nat (chunk_size - overlap)))
                     [0..<num_chunks (length tx) (nat (chunk_size - overlap))])"
    using assms by (intro split_loop_closed) auto
  then show ?thesis by (simp add: split_text_def)
qed

lemma concat_tail_windows:
  "take c tx @ concat (map (\<lambda>k. take s (drop (c + k * s) tx)) [0..<m]) = take (c + m * s) tx"
proof (induction m)
  case 0
  show ?case by simp
next
  case (Suc m)
  have "take (c + Suc m * s) tx = take ((c + m * s) + s) tx" by (simp add: algebra_simps)
  also have "\<dots> = take (c + m * s) tx @ take s (drop (c + m * s) tx)" by (rule take_add)
  finally show ?case using Suc by simp
qed

lemma drop_window:
  assumes "ov \<le> c" "s = c - ov"
  shows "drop ov (window tx c s (Suc k)) = take s (drop (c + k * s) tx)"
proof -
  have "ov + Suc k * s = c + k * s" using assms by simp
  then show ?thesis using assms by (simp add: window_def drop_take add.commute)
qed

lemma reconstruct_windows:
  assumes "0 < s" "ov \<le> c" "s = c - ov"
  shows "reconstruct (int ov) (map (window tx c s) [0..<num_chunks (length tx) s]) = tx"
proof (cases "num_chunks (length tx) s")
  case 0
  then have "\<not> 0 * s < length tx" using lt_num_chunks[OF assms(1), of 0 "length tx"] by simp
  then show ?thesis using 0 by simp
next
  case (Suc m)
  have "\<not> Suc m * s < length tx" using lt_num_chunks[OF assms(1), of "Suc m" "length tx"] Suc by simp
  then have cover: "length tx \<le> c + m * s" using assms by simp
  have "[0..<Suc m] = 0 # map Suc [0..<m]"
    by (simp add: upt_conv_Cons map_Suc_upt del: upt_Suc)
  then have "reconstruct (int ov) (map (window tx c s) [0..<Suc m]) =
        window tx c s 0 @ concat (map (\<lambda>k. drop ov (window tx c s (Suc k))) [0..<m])"
    by (simp add: comp_def del: upt_Suc)
  also have "\<dots> = take c tx @ concat (map (\<lambda>k. take s (drop (c + k * s) tx)) [0..<m])"
    by (simp only: drop_window[OF assms(2,3)]) (simp add: window_def)
  also have "\<dots> = take (c + m * s) tx" by (rule concat_tail_windows)
  also have "\<dots> = tx" using cover by simp
  finally show ?thesis using Suc by simp
qed

lemma length_window: "length (window tx c s k) = min c (length tx - k * s)"
  by (simp add: window_def min.commute)

lemma window_nonempty: "k * s < length tx \<Longrightarrow> 0 < c \<Longrightarrow> window tx c s k \<noteq> []"
  by (simp add: window_def)

lemma all_but_last_full_windows:
  assumes "0 < c"
  shows "all_but_last_full (int c) (map (window tx c c) [0..<num_chunks (length tx) c])"
proof -
  have "length (window tx c c k) = c" if "k < num_chunks (length tx) c - 1" for k
  proof -
    from that have "Suc k < num_chunks (length tx) c" by simp
    then have "Suc k * c < length tx" using lt_num_chunks[OF assms] by blast
    then show ?thesis by (simp add: length_window)
  qed
  moreover have "butlast [0..<num_chunks (length tx) c] = [0..<num_chunks (length tx) c - 1]"
    by (simp add: butlast_conv_take)
  ultimately show ?thesis
    by (auto simp: all_but_last_full_def list_all_iff map_butlast[symmetric])
qed

text \<open>
  Claim C2, amended: for \<open>chunk_size > 0\<close> and \<open>0 \<le> overlap < chunk_size\<close> the call
  returns; the first chunk followed by every later chunk without its first \<open>overlap\<close>
  characters is the text; the \<open>k\<close>-th chunk has length
  \<open>min(chunk_size, len(text) - k * (chunk_size - overlap))\<close>, so a chunk has length
  \<open>chunk_size\<close> exactly when its window lies inside the text; no chunk is empty; and
  when \<open>overlap = 0\<close> every chunk except the last has length \<open>chunk_size\<close>.
\<close>

theorem split_text_chunks:
  assumes "0 < chunk_size" "0 \<le> overlap" "overlap < chunk_size"
  shows "\<exists>chunks. split_text tx chunk_size overlap = Some chunks
           \<and> reconstruct overlap chunks = tx
           \<and> (\<forall>k < length chunks.
                 int (length (chunks ! k)) =
                   min chunk_size (int (length tx) - int k * (chunk_size - overlap)))
           \<and> (\<forall>c \<in> set chunks. c \<noteq> [])
           \<and> (overlap = 0 \<longrightarrow> all_but_last_full chunk_size chunks)"
proof -
  define c where "c = nat chunk_size"
  define ov where "ov = nat overlap"
  define s where "s = nat (chunk_size - overlap)"
  define K where "K = num_chunks (length tx) s"
  define chunks where "chunks = map (window tx c s) [0..<K]"
  have s: "0 < s" "ov \<le> c" "s = c - ov" and ints: "chunk_size = int c" "overlap = int ov"
    "chunk_size - overlap = int s"
    using assms by (auto simp: c_def ov_def s_def)
  have run: "split_text tx chunk_size overlap = Some chunks"
    unfolding chunks_def K_def c_def s_def by (rule split_text_closed[OF assms])
  have rec: "reconstruct overlap chunks = tx"
    unfolding chunks_def K_def ints(2) by (rule reconstruct_windows[OF s])
  have len: "int (length (chunks ! k)) =
               min chunk_size (int (length tx) - int k * (chunk_size - overlap))"
    if "k < length chunks" for k
  proof -
    from that have "k < K" by (simp add: chunks_def)
    then have "k * s < length tx" using lt_num_chunks[OF s(1)] by (simp add: K_def)
    then have "int (length tx - k * s) = int (length tx) - int k * int s" by simp
    moreover have "length (chunks ! k) = min c (length tx - k * s)"
      using \<open>k < K\<close> by (simp add: chunks_def length_window)
    moreover have "int s = int c - int ov" using s by simp
    ultimately show ?thesis unfolding ints(1,2) by simp
  qed
  have nonempty: "x \<noteq> []" if "x \<in> set chunks" for x
  proof -
    from that obtain k where "k < K" "x = window tx c s k" by (auto simp: chunks_def)
    moreover from this have "k * s < length tx" using lt_num_chunks[OF s(1)] by (simp add: K_def)
    moreover have "0 < c" using assms by (simp add: c_def)
    ultimately show ?thesis by (simp add: window_nonempty)
  qed
  have full: "all_but_last_full chunk_size chunks" if "overlap = 0"
  proof -
    from that have "s = c" using s by (simp add: ov_def)
    moreover have "0 < c" using assms by (simp add: c_def)
    ultimately show ?thesis unfolding chunks_def K_def ints(1)
      by (simp add: all_but_last_full_windows)
  qed
  show ?thesis using run rec len nonempty full by blast
qed

text \<open>Claim C2, amended, on the text \<open>abcde\<close> with \<open>chunk_size = 4\<close> and \<open>overlap = 2\<close>.\<close>

theorem split_text_chunks_witness:
  "(0::int) < 4 \<and> (0::int) \<le> 2 \<and> (2::int) < 4 \<and>
   (\<exists>chunks. split_text ''abcde'' 4 2 = Some chunks
           \<and> reconstruct 2 chunks = ''abcde''
           \<and> (\<forall>k < length chunks.
                 int (length (chunks ! k)) = min 4 (int (length ''abcde'') - int k * (4 - 2)))
           \<and> (\<forall>c \<in> set chunks. c \<noteq> [])
           \<and> ((2::int) = 0 \<longrightarrow> all_but_last_full 4 chunks))"
  using split_text_chunks [of 4 2 "''abcde''"] by simp

text \<open>
  Claim C2 as stated says that every chunk except the last has length \<open>chunk_size\<close>.
  With a positive overlap several trailing chunks can be short: the text \<open>abc\<close> with
  \<open>chunk_size = 3\<close> and \<open>overlap = 2\<close> gives the chunks \<open>abc\<close>, \<open>bc\<close>, \<open>c\<close>, and
  the second one is neither last nor of length 3.
\<close>

theorem split_text_short_chunk_counterexample:
  "(0::int) < 3 \<and> (0::int) \<le> 2 \<and> (2::int) < 3 \<and>
   split_text ''abc'' 3 2 = Some [''abc'', ''bc'', ''c''] \<and>
   \<not> all_but_last_full 3 [''abc'', ''bc'', ''c'']"
  by (simp add: split_text_def split_loop.simps py_slice_def slice_bound_def all_but_last_full_def)

end
